theory Spec2Isabelle
  imports Complex_Main
begin

section \<open>Runtime values\<close>

text \<open>
  A JavaScript \<^verbatim>\<open>number\<close> is modelled by an exact rational: the counts and epoch
  timestamps the program handles are integers, and NaN and the infinities cannot be carried by
  the JSON the program reads. The rounding of IEEE-754 arithmetic is not modelled.
  A field that is \<^verbatim>\<open>undefined\<close> or \<^verbatim>\<open>null\<close> is \<open>None\<close>.
\<close>

type_synonym number = rat

text \<open>A thrown value; \<^verbatim>\<open>error.message\<close> reads its text.\<close>

datatype exn = Error string

fun error_message :: "exn \<Rightarrow> string" where
  "error_message (Error m) = m"

text \<open>\<^verbatim>\<open>x || d\<close> on an optional number and on an optional string: every falsy value
  (absent, \<open>0\<close>, the empty string) is replaced by the default.\<close>

definition or_number :: "number option \<Rightarrow> number \<Rightarrow> number" where
  "or_number x d = (case x of None \<Rightarrow> d | Some v \<Rightarrow> if v = 0 then d else v)"

definition or_string :: "string option \<Rightarrow> string \<Rightarrow> string" where
  "or_string x d = (case x of None \<Rightarrow> d | Some s \<Rightarrow> if s = [] then d else s)"

text \<open>\<^verbatim>\<open>x || d\<close> where \<open>x\<close> is an object or an array: present means truthy.\<close>

definition or_object :: "'a option \<Rightarrow> 'a \<Rightarrow> 'a" where
  "or_object x d = (case x of None \<Rightarrow> d | Some v \<Rightarrow> v)"

section \<open>Interfaces of model.tsx\<close>

record CountryInfo =
  id' :: number
  iso2 :: string
  iso3 :: string
  lat :: number
  long :: number
  flag :: string

text \<open>\<^verbatim>\<open>CountryData\<close> as it arrives from the API or the cache: any field may be missing.\<close>

record CountryData =
  country :: "string option"
  countryInfo :: "CountryInfo option"
  updated :: "number option"
  cases :: "number option"
  todayCases :: "number option"
  deaths :: "number option"
  todayDeaths :: "number option"
  recovered :: "number option"
  todayRecovered :: "number option"
  active :: "number option"
  critical :: "number option"
  casesPerOneMillion :: "number option"
  deathsPerOneMillion :: "number option"
  tests :: "number option"
  testsPerOneMillion :: "number option"
  population :: "number option"
  continent :: "string option"
  oneCasePerPeople :: "number option"
  oneDeathPerPeople :: "number option"
  oneTestPerPeople :: "number option"
  activePerOneMillion :: "number option"
  recoveredPerOneMillion :: "number option"
  criticalPerOneMillion :: "number option"

text \<open>
  A JavaScript object with string keys and number values: its own properties in the order of
  their creation, each key once.
\<close>

type_synonym series = "(string \<times> number) list"

record HistoricalTimeline =
  cases :: "series option"
  deaths :: "series option"
  recovered :: "series option"

record HistoricalData =
  country :: "string option"
  province :: "string list option"
  timeline :: "HistoricalTimeline option"

record ChartDataPoint =
  date :: string
  cases :: number
  deaths :: number
  recovered :: number

section \<open>The outside world\<close>

text \<open>
  Every call that leaves the program is recorded in a trace. What the outside answers may depend
  on everything that happened before, so each collaborator is a function of the trace so far:
  the connectivity probe (it may throw, or report \<^verbatim>\<open>isConnected\<close> as \<^verbatim>\<open>null\<close>),
  the clock, the HTTP client (it may throw, or answer with an empty body) and the device storage
  (each call may throw).
\<close>

datatype event =
    NetInfoFetch
  | DateNow
  | AxiosGet string
  | AsyncStorageGetItem string
  | AsyncStorageSetItem string

record env =
  netinfo_fetch :: "event list \<Rightarrow> exn + bool option"
  date_now :: "event list \<Rightarrow> number"
  axios_get_countries :: "event list \<Rightarrow> string \<Rightarrow> exn + CountryData list option"
  axios_get_country :: "event list \<Rightarrow> string \<Rightarrow> exn + CountryData option"
  axios_get_historical :: "event list \<Rightarrow> string \<Rightarrow> exn + HistoricalData option"
  getItem_fault :: "event list \<Rightarrow> string \<Rightarrow> exn option"
  setItem_fault :: "event list \<Rightarrow> string \<Rightarrow> exn option"

text \<open>
  The text kept under a storage key is represented by the value it encodes
  (\<^verbatim>\<open>JSON.stringify\<close> followed by \<^verbatim>\<open>JSON.parse\<close> gives the value back).
\<close>

datatype json =
    JNumber number
  | JCountries "CountryData list"
  | JHistorical HistoricalData

record world =
  asyncStorage :: "string \<rightharpoonup> json"
  isOnline :: bool
  trace :: "event list"

text \<open>An asynchronous computation: it runs on a world and either throws or returns.\<close>

type_synonym 'a io = "world \<Rightarrow> (exn + 'a) \<times> world"

definition io_return :: "'a \<Rightarrow> 'a io" where
  "io_return x w = (Inr x, w)"

definition io_bind :: "'a io \<Rightarrow> ('a \<Rightarrow> 'b io) \<Rightarrow> 'b io" where
  "io_bind m f w = (case m w of (Inl e, w') \<Rightarrow> (Inl e, w') | (Inr x, w') \<Rightarrow> f x w')"

definition io_catch :: "'a io \<Rightarrow> (exn \<Rightarrow> 'a io) \<Rightarrow> 'a io" where
  "io_catch m h w = (case m w of (Inl e, w') \<Rightarrow> h e w' | (Inr x, w') \<Rightarrow> (Inr x, w'))"

definition record_event :: "event \<Rightarrow> world \<Rightarrow> world" where
  "record_event ev w = w\<lparr>trace := trace w @ [ev]\<rparr>"

definition Date_now :: "env \<Rightarrow> number io" where
  "Date_now env w = (Inr (date_now env (trace w)), record_event DateNow w)"

definition NetInfo_fetch :: "env \<Rightarrow> bool option io" where
  "NetInfo_fetch env w = (netinfo_fetch env (trace w), record_event NetInfoFetch w)"

definition AsyncStorage_getItem :: "env \<Rightarrow> string \<Rightarrow> json option io" where
  "AsyncStorage_getItem env key w =
     (case getItem_fault env (trace w) key of
        Some e \<Rightarrow> (Inl e, record_event (AsyncStorageGetItem key) w)
      | None \<Rightarrow> (Inr (asyncStorage w key), record_event (AsyncStorageGetItem key) w))"

definition AsyncStorage_setItem :: "env \<Rightarrow> string \<Rightarrow> json \<Rightarrow> unit io" where
  "AsyncStorage_setItem env key v w =
     (case setItem_fault env (trace w) key of
        Some e \<Rightarrow> (Inl e, record_event (AsyncStorageSetItem key) w)
      | None \<Rightarrow> (Inr (), record_event (AsyncStorageSetItem key)
                           (w\<lparr>asyncStorage := (asyncStorage w)(key \<mapsto> v)\<rparr>)))"

section \<open>Constants of model.tsx\<close>

definition COUNTRIES_DATA :: string where
  "COUNTRIES_DATA = ''@covid19_countries''"

definition LAST_UPDATE :: string where
  "LAST_UPDATE = ''@covid19_last_update''"

definition HISTORICAL_PREFIX :: string where
  "HISTORICAL_PREFIX = ''@covid19_historical_''"

definition CACHE_DURATION :: number where
  "CACHE_DURATION = 3600000"

definition ALL_COUNTRIES :: string where
  "ALL_COUNTRIES = ''/countries''"

definition COUNTRY :: string where
  "COUNTRY = ''/countries''"

definition HISTORICAL :: string where
  "HISTORICAL = ''/historical''"

section \<open>CountryModel\<close>

record CountryModel =
  country :: string
  countryInfo :: CountryInfo
  updated :: number
  cases :: number
  todayCases :: number
  deaths :: number
  todayDeaths :: number
  recovered :: number
  todayRecovered :: number
  active :: number
  critical :: number
  casesPerOneMillion :: number
  deathsPerOneMillion :: number
  tests :: number
  testsPerOneMillion :: number
  population :: number
  continent :: string
  oneCasePerPeople :: number
  oneDeathPerPeople :: number
  oneTestPerPeople :: number
  activePerOneMillion :: number
  recoveredPerOneMillion :: number
  criticalPerOneMillion :: number

definition default_countryInfo :: CountryInfo where
  "default_countryInfo =
     \<lparr>id' = 0, iso2 = '''', iso3 = '''', lat = 0, long = 0, flag = ''''\<rparr>"

text \<open>
  The constructor. \<^verbatim>\<open>data.updated || Date.now()\<close> reads the clock only when
  \<^verbatim>\<open>data.updated\<close> is falsy; all other fields are computed without effect.
\<close>

definition new_CountryModel :: "env \<Rightarrow> CountryData \<Rightarrow> CountryModel io" where
  "new_CountryModel env data =
     io_bind
       (case CountryData.updated data of
          None \<Rightarrow> Date_now env
        | Some u \<Rightarrow> if u = 0 then Date_now env else io_return u)
       (\<lambda>upd. io_return
         \<lparr>CountryModel.country = or_string (CountryData.country data) '''',
          CountryModel.countryInfo = or_object (CountryData.countryInfo data) default_countryInfo,
          CountryModel.updated = upd,
          CountryModel.cases = or_number (CountryData.cases data) 0,
          CountryModel.todayCases = or_number (CountryData.todayCases data) 0,
          CountryModel.deaths = or_number (CountryData.deaths data) 0,
          CountryModel.todayDeaths = or_number (CountryData.todayDeaths data) 0,
          CountryModel.recovered = or_number (CountryData.recovered data) 0,
          CountryModel.todayRecovered = or_number (CountryData.todayRecovered data) 0,
          CountryModel.active = or_number (CountryData.active data) 0,
          CountryModel.critical = or_number (CountryData.critical data) 0,
          CountryModel.casesPerOneMillion = or_number (CountryData.casesPerOneMillion data) 0,
          CountryModel.deathsPerOneMillion = or_number (CountryData.deathsPerOneMillion data) 0,
          CountryModel.tests = or_number (CountryData.tests data) 0,
          CountryModel.testsPerOneMillion = or_number (CountryData.testsPerOneMillion data) 0,
          CountryModel.population = or_number (CountryData.population data) 0,
          CountryModel.continent = or_string (CountryData.continent data) '''',
          CountryModel.oneCasePerPeople = or_number (CountryData.oneCasePerPeople data) 0,
          CountryModel.oneDeathPerPeople = or_number (CountryData.oneDeathPerPeople data) 0,
          CountryModel.oneTestPerPeople = or_number (CountryData.oneTestPerPeople data) 0,
          CountryModel.activePerOneMillion = or_number (CountryData.activePerOneMillion data) 0,
          CountryModel.recoveredPerOneMillion =
            or_number (CountryData.recoveredPerOneMillion data) 0,
          CountryModel.criticalPerOneMillion =
            or_number (CountryData.criticalPerOneMillion data) 0\<rparr>)"

text \<open>\<^verbatim>\<open>dataArray.map(item => new CountryModel(item))\<close>, left to right.\<close>

fun CountryModel_fromArray :: "env \<Rightarrow> CountryData list \<Rightarrow> CountryModel list io" where
  "CountryModel_fromArray env [] = io_return []"
| "CountryModel_fromArray env (item # rest) =
     io_bind (new_CountryModel env item) (\<lambda>m.
     io_bind (CountryModel_fromArray env rest) (\<lambda>ms.
     io_return (m # ms)))"

subsection \<open>Number.prototype.toFixed\<close>




subsection \<open>Derived rates\<close>




section \<open>HistoricalDataModel\<close>

record Timeline =
  cases :: series
  deaths :: series
  recovered :: series

record HistoricalDataModel =
  country :: string
  province :: "string list"
  timeline :: Timeline

text \<open>\<^verbatim>\<open>data.timeline?.cases\<close>: \<^verbatim>\<open>undefined\<close> when the timeline is missing.\<close>

definition optional_chain :: "'a option \<Rightarrow> ('a \<Rightarrow> 'b option) \<Rightarrow> 'b option" where
  "optional_chain x f = (case x of None \<Rightarrow> None | Some v \<Rightarrow> f v)"

definition new_HistoricalDataModel :: "HistoricalData \<Rightarrow> HistoricalDataModel" where
  "new_HistoricalDataModel data =
     \<lparr>HistoricalDataModel.country = or_string (HistoricalData.country data) [],
      HistoricalDataModel.province = or_object (HistoricalData.province data) [],
      HistoricalDataModel.timeline =
        \<lparr>Timeline.cases =
           or_object (optional_chain (HistoricalData.timeline data) HistoricalTimeline.cases) [],
         Timeline.deaths =
           or_object (optional_chain (HistoricalData.timeline data) HistoricalTimeline.deaths) [],
         Timeline.recovered =
           or_object (optional_chain (HistoricalData.timeline data) HistoricalTimeline.recovered)
             []\<rparr>\<rparr>"

subsection \<open>Object.keys and property reads\<close>

definition is_digit :: "char \<Rightarrow> bool" where
  "is_digit c = (c \<in> set ''0123456789'')"

definition digit_value :: "char \<Rightarrow> nat" where
  "digit_value c = of_char c - of_char CHR ''0''"

definition digits_value :: "string \<Rightarrow> nat" where
  "digits_value s = foldl (\<lambda>a c. 10 * a + digit_value c) 0 s"

text \<open>
  An array index is the canonical decimal text of an integer below \<open>2^32 - 1\<close>.
  \<^verbatim>\<open>Object.keys\<close> lists such keys first, in ascending numeric order, and then every other
  key in the order of its creation.
\<close>

definition is_array_index :: "string \<Rightarrow> bool" where
  "is_array_index s =
     (s \<noteq> [] \<and> list_all is_digit s \<and> (s = ''0'' \<or> hd s \<noteq> CHR ''0'')
      \<and> digits_value s < 2 ^ 32 - 1)"

definition Object_keys :: "series \<Rightarrow> string list" where
  "Object_keys obj =
     sort_key digits_value (filter is_array_index (map fst obj))
     @ filter (\<lambda>k. \<not> is_array_index k) (map fst obj)"

text \<open>\<^verbatim>\<open>obj[key]\<close> reads an own property; properties inherited from
  \<^verbatim>\<open>Object.prototype\<close> are not modelled.\<close>

definition property :: "series \<Rightarrow> string \<Rightarrow> number option" where
  "property obj key = map_of obj key"

subsection \<open>Chart data\<close>

text \<open>\<^verbatim>\<open>s.split(c)\<close> for a one-character separator.\<close>

fun split :: "char \<Rightarrow> string \<Rightarrow> string list" where
  "split c [] = [] # []"
| "split c (x # xs) =
     (if x = c then [] # split c xs
      else (case split c xs of [] \<Rightarrow> [x] # [] | p # ps \<Rightarrow> (x # p) # ps))"

text \<open>Reading an array element that may not exist, and its text in a template literal.\<close>

definition element :: "'a list \<Rightarrow> nat \<Rightarrow> 'a option" where
  "element xs i = (if i < length xs then Some (xs ! i) else None)"

definition template :: "string option \<Rightarrow> string" where
  "template x = (case x of None \<Rightarrow> ''undefined'' | Some s \<Rightarrow> s)"

definition formatDate :: "string \<Rightarrow> string" where
  "formatDate dateString =
     (let parts = split CHR ''/'' dateString;
          month = element parts 0;
          day = element parts 1
      in template month @ ''/'' @ template day)"

definition getChartData :: "HistoricalDataModel \<Rightarrow> ChartDataPoint list" where
  "getChartData this =
     (let dates = Object_keys (Timeline.cases (HistoricalDataModel.timeline this))
      in map (\<lambda>date.
           \<lparr>ChartDataPoint.date = formatDate date,
            ChartDataPoint.cases =
              or_number (property (Timeline.cases (HistoricalDataModel.timeline this)) date) 0,
            ChartDataPoint.deaths =
              or_number (property (Timeline.deaths (HistoricalDataModel.timeline this)) date) 0,
            ChartDataPoint.recovered =
              or_number (property (Timeline.recovered (HistoricalDataModel.timeline this)) date) 0\<rparr>)
           dates)"

section \<open>Staleness\<close>

text \<open>\<^verbatim>\<open>!lastUpdate\<close> holds for \<^verbatim>\<open>null\<close> and for \<open>0\<close>; the clock is read only
  past that guard.\<close>

definition isDataStale :: "env \<Rightarrow> number option \<Rightarrow> number \<Rightarrow> bool io" where
  "isDataStale env lastUpdate cacheDuration =
     (case lastUpdate of
        None \<Rightarrow> io_return True
      | Some lu \<Rightarrow>
          if lu = 0 then io_return True
          else io_bind (Date_now env) (\<lambda>now. io_return (cacheDuration < now - lu)))"

section \<open>StorageService\<close>

text \<open>
  \<^verbatim>\<open>getItem<T>\<close> casts the parsed text to \<open>T\<close> without a check. The model reads a key
  at the type the caller names; the three kinds of key are never written with a value of
  another type, and a slot that would hold one is read as \<^verbatim>\<open>null\<close>.
\<close>

fun as_number :: "json \<Rightarrow> number option" where
  "as_number (JNumber n) = Some n"
| "as_number _ = None"

fun as_countries :: "json \<Rightarrow> CountryData list option" where
  "as_countries (JCountries cs) = Some cs"
| "as_countries _ = None"

fun as_historical :: "json \<Rightarrow> HistoricalData option" where
  "as_historical (JHistorical h) = Some h"
| "as_historical _ = None"

definition StorageService_setItem :: "env \<Rightarrow> string \<Rightarrow> json \<Rightarrow> bool io" where
  "StorageService_setItem env key jsonValue =
     io_catch
       (io_bind (AsyncStorage_setItem env key jsonValue) (\<lambda>_. io_return True))
       (\<lambda>error. io_return False)"

definition StorageService_getItem ::
  "env \<Rightarrow> (json \<Rightarrow> 'a option) \<Rightarrow> string \<Rightarrow> 'a option io" where
  "StorageService_getItem env parse key =
     io_catch
       (io_bind (AsyncStorage_getItem env key) (\<lambda>jsonValue.
          io_return (case jsonValue of None \<Rightarrow> None | Some j \<Rightarrow> parse j)))
       (\<lambda>error. io_return None)"

section \<open>ApiService\<close>

record 'a ApiResponse =
  success :: bool
  data :: "'a option"
  error :: "string option"

definition axios_get ::
  "(event list \<Rightarrow> string \<Rightarrow> exn + 'a option) \<Rightarrow> string \<Rightarrow> 'a option io" where
  "axios_get server url w = (server (trace w) url, record_event (AxiosGet url) w)"

definition ApiService_getAllCountries :: "env \<Rightarrow> CountryData list ApiResponse io" where
  "ApiService_getAllCountries env =
     io_catch
       (io_bind (axios_get (axios_get_countries env) ALL_COUNTRIES) (\<lambda>response_data.
          io_return \<lparr>success = True, data = response_data, error = None\<rparr>))
       (\<lambda>error. io_return \<lparr>success = False, data = None, error = Some (error_message error)\<rparr>)"

definition ApiService_getCountry :: "env \<Rightarrow> string \<Rightarrow> CountryData ApiResponse io" where
  "ApiService_getCountry env countryName =
     io_catch
       (io_bind (axios_get (axios_get_country env) (COUNTRY @ ''/'' @ countryName))
          (\<lambda>response_data.
          io_return \<lparr>success = True, data = response_data, error = None\<rparr>))
       (\<lambda>error. io_return \<lparr>success = False, data = None, error = Some (error_message error)\<rparr>)"

definition ApiService_getHistoricalData ::
  "env \<Rightarrow> string \<Rightarrow> string \<Rightarrow> HistoricalData ApiResponse io" where
  "ApiService_getHistoricalData env countryName days =
     io_catch
       (io_bind
          (axios_get (axios_get_historical env)
             (HISTORICAL @ ''/'' @ countryName @ ''?lastdays='' @ days))
          (\<lambda>response_data.
          io_return \<lparr>success = True, data = response_data, error = None\<rparr>))
       (\<lambda>error. io_return \<lparr>success = False, data = None, error = Some (error_message error)\<rparr>)"

section \<open>StorageController\<close>

definition saveCountriesData :: "env \<Rightarrow> CountryData list \<Rightarrow> bool io" where
  "saveCountriesData env countries =
     io_catch
       (io_bind (StorageService_setItem env COUNTRIES_DATA (JCountries countries)) (\<lambda>success.
        io_bind
          (if success then
             io_bind (Date_now env) (\<lambda>now.
             io_bind (StorageService_setItem env LAST_UPDATE (JNumber now)) (\<lambda>_.
             io_return ()))
           else io_return ())
          (\<lambda>_. io_return success)))
       (\<lambda>error. io_return False)"

definition getCountriesData :: "env \<Rightarrow> CountryData list option io" where
  "getCountriesData env =
     io_catch (StorageService_getItem env as_countries COUNTRIES_DATA)
       (\<lambda>error. io_return None)"

definition saveHistoricalData :: "env \<Rightarrow> string \<Rightarrow> HistoricalData \<Rightarrow> bool io" where
  "saveHistoricalData env countryName d =
     io_catch
       (let key = HISTORICAL_PREFIX @ countryName
        in StorageService_setItem env key (JHistorical d))
       (\<lambda>error. io_return False)"

definition getHistoricalData :: "env \<Rightarrow> string \<Rightarrow> HistoricalData option io" where
  "getHistoricalData env countryName =
     io_catch
       (let key = HISTORICAL_PREFIX @ countryName
        in StorageService_getItem env as_historical key)
       (\<lambda>error. io_return None)"

definition getLastUpdateTime :: "env \<Rightarrow> number option io" where
  "getLastUpdateTime env =
     io_catch (StorageService_getItem env as_number LAST_UPDATE)
       (\<lambda>error. io_return None)"

section \<open>CovidController\<close>

record 'a FetchResult =
  success :: bool
  data :: 'a
  fromCache :: "bool option"
  message :: "string option"
  error :: "string option"

definition checkConnection :: "env \<Rightarrow> bool io" where
  "checkConnection env =
     io_bind (NetInfo_fetch env) (\<lambda>isConnected. (\<lambda>w.
       let this = w\<lparr>isOnline := (case isConnected of None \<Rightarrow> False | Some b \<Rightarrow> b)\<rparr>
       in (Inr (isOnline this), this)))"

text \<open>
  In the bodies below a step that may execute \<^verbatim>\<open>return\<close> yields \<open>Some\<close> of the
  returned result, and \<open>None\<close> when control falls through to the next statement.

  The \<^verbatim>\<open>try\<close> block of \<^verbatim>\<open>fetchAllCountries\<close> is written in two parts: the three
  \<^verbatim>\<open>const\<close> declarations that open it, and the statements that follow them, as a function
  of the values declared (\<open>fetchAllCountries_rest\<close>).
\<close>

definition fetchAllCountries_rest ::
  "env \<Rightarrow> bool \<Rightarrow> bool \<Rightarrow> bool \<Rightarrow> CountryModel list FetchResult io" where
  "fetchAllCountries_rest env forceRefresh isConnected dataIsStale =
     io_bind
       (if \<not> forceRefresh \<and> \<not> dataIsStale then
          io_bind (getCountriesData env) (\<lambda>cachedData.
            case cachedData of
              Some cached \<Rightarrow>
                io_bind (CountryModel_fromArray env cached) (\<lambda>models.
                io_return (Some \<lparr>success = True, data = models, fromCache = Some True,
                                  message = None, error = None\<rparr>))
            | None \<Rightarrow> io_return None)
        else io_return None)
       (\<lambda>returned. case returned of Some result \<Rightarrow> io_return result | None \<Rightarrow>
     io_bind
       (if isConnected \<and> (forceRefresh \<or> dataIsStale) then
          io_bind (ApiService_getAllCountries env) (\<lambda>response.
            case ApiResponse.data response of
              Some response_data \<Rightarrow>
                if ApiResponse.success response then
                  io_bind (CountryModel_fromArray env response_data) (\<lambda>countries.
                  io_bind (saveCountriesData env response_data) (\<lambda>_.
                  io_return (Some \<lparr>success = True, data = countries, fromCache = Some False,
                                    message = None, error = None\<rparr>)))
                else io_return None
            | None \<Rightarrow> io_return None)
        else io_return None)
       (\<lambda>returned. case returned of Some result \<Rightarrow> io_return result | None \<Rightarrow>
     io_bind (getCountriesData env) (\<lambda>cachedData.
       case cachedData of
         Some cached \<Rightarrow>
           io_bind (CountryModel_fromArray env cached) (\<lambda>models.
           io_return \<lparr>success = True, data = models, fromCache = Some True,
                      message = Some ''Using cached data (offline or API unavailable)'',
                      error = None\<rparr>)
       | None \<Rightarrow>
           io_return \<lparr>success = False, data = [], fromCache = None, message = None,
                      error = Some ''No data available''\<rparr>)))"

definition fetchAllCountries_try :: "env \<Rightarrow> bool \<Rightarrow> CountryModel list FetchResult io" where
  "fetchAllCountries_try env forceRefresh =
     io_bind (checkConnection env) (\<lambda>isConnected.
     io_bind (getLastUpdateTime env) (\<lambda>lastUpdate.
     io_bind (isDataStale env lastUpdate CACHE_DURATION) (\<lambda>dataIsStale.
     fetchAllCountries_rest env forceRefresh isConnected dataIsStale)))"

definition fetchAllCountries_catch :: "env \<Rightarrow> exn \<Rightarrow> CountryModel list FetchResult io" where
  "fetchAllCountries_catch env = (\<lambda>error.
     io_bind (getCountriesData env) (\<lambda>cachedData.
       case cachedData of
         Some cached \<Rightarrow>
           io_bind (CountryModel_fromArray env cached) (\<lambda>models.
           io_return \<lparr>success = True, data = models, fromCache = Some True,
                      message = Some ''Using cached data due to error'', error = None\<rparr>)
       | None \<Rightarrow>
           io_return \<lparr>success = False, data = [], fromCache = None, message = None,
                      error = Some (error_message error)\<rparr>))"

definition fetchAllCountries :: "env \<Rightarrow> bool \<Rightarrow> CountryModel list FetchResult io" where
  "fetchAllCountries env forceRefresh =
     io_catch (fetchAllCountries_try env forceRefresh) (fetchAllCountries_catch env)"

text \<open>\<^verbatim>\<open>cachedCountries.find(c => c.country === countryName)\<close>\<close>

definition find_country :: "CountryData list \<Rightarrow> string \<Rightarrow> CountryData option" where
  "find_country cachedCountries countryName =
     find (\<lambda>c. CountryData.country c = Some countryName) cachedCountries"

definition fetchCountryDetails_try ::
  "env \<Rightarrow> string \<Rightarrow> CountryModel option FetchResult io" where
  "fetchCountryDetails_try env countryName =
     io_bind (checkConnection env) (\<lambda>isConnected.
     io_bind
       (if isConnected then
          io_bind (ApiService_getCountry env countryName) (\<lambda>response.
            case ApiResponse.data response of
              Some response_data \<Rightarrow>
                if ApiResponse.success response then
                  io_bind (new_CountryModel env response_data) (\<lambda>model.
                  io_return (Some \<lparr>success = True, data = Some model, fromCache = None,
                                    message = None, error = None\<rparr>))
                else io_return None
            | None \<Rightarrow> io_return None)
        else io_return None)
       (\<lambda>returned. case returned of Some result \<Rightarrow> io_return result | None \<Rightarrow>
     io_bind (getCountriesData env) (\<lambda>cachedCountries.
     io_bind
       (case cachedCountries of
          Some cached \<Rightarrow>
            (case find_country cached countryName of
               Some c \<Rightarrow>
                 io_bind (new_CountryModel env c) (\<lambda>model.
                 io_return (Some \<lparr>success = True, data = Some model, fromCache = Some True,
                                   message = None, error = None\<rparr>))
             | None \<Rightarrow> io_return None)
        | None \<Rightarrow> io_return None)
       (\<lambda>returned. case returned of Some result \<Rightarrow> io_return result | None \<Rightarrow>
     io_return \<lparr>success = False, data = None, fromCache = None, message = None,
                error = Some ''Country data not available''\<rparr>))))"

definition fetchCountryDetails_catch ::
  "env \<Rightarrow> exn \<Rightarrow> CountryModel option FetchResult io" where
  "fetchCountryDetails_catch env = (\<lambda>error.
     io_return \<lparr>success = False, data = None, fromCache = None, message = None,
                error = Some (error_message error)\<rparr>)"

definition fetchCountryDetails :: "env \<Rightarrow> string \<Rightarrow> CountryModel option FetchResult io" where
  "fetchCountryDetails env countryName =
     io_catch (fetchCountryDetails_try env countryName) (fetchCountryDetails_catch env)"

definition fetchHistoricalData_try ::
  "env \<Rightarrow> string \<Rightarrow> string \<Rightarrow> HistoricalDataModel option FetchResult io" where
  "fetchHistoricalData_try env countryName days =
     io_bind (checkConnection env) (\<lambda>isConnected.
     io_bind (getHistoricalData env countryName) (\<lambda>cachedData.
     io_bind
       (if isConnected then
          io_bind (ApiService_getHistoricalData env countryName days) (\<lambda>response.
            case ApiResponse.data response of
              Some response_data \<Rightarrow>
                if ApiResponse.success response then
                  let historicalData = new_HistoricalDataModel response_data
                  in io_bind (saveHistoricalData env countryName response_data) (\<lambda>_.
                     io_return (Some \<lparr>success = True, data = Some historicalData,
                                       fromCache = Some False, message = None,
                                       error = None\<rparr>))
                else io_return None
            | None \<Rightarrow> io_return None)
        else io_return None)
       (\<lambda>returned. case returned of Some result \<Rightarrow> io_return result | None \<Rightarrow>
     (case cachedData of
        Some cached \<Rightarrow>
          io_return \<lparr>success = True, data = Some (new_HistoricalDataModel cached),
                     fromCache = Some True, message = None, error = None\<rparr>
      | None \<Rightarrow>
          io_return \<lparr>success = False, data = None, fromCache = None, message = None,
                     error = Some ''Historical data not available''\<rparr>))))"

definition fetchHistoricalData_catch ::
  "env \<Rightarrow> string \<Rightarrow> exn \<Rightarrow> HistoricalDataModel option FetchResult io" where
  "fetchHistoricalData_catch env countryName = (\<lambda>error.
     io_bind (getHistoricalData env countryName) (\<lambda>cachedData.
       case cachedData of
         Some cached \<Rightarrow>
           io_return \<lparr>success = True, data = Some (new_HistoricalDataModel cached),
                      fromCache = Some True, message = None, error = None\<rparr>
       | None \<Rightarrow>
           io_return \<lparr>success = False, data = None, fromCache = None, message = None,
                      error = Some (error_message error)\<rparr>))"

definition fetchHistoricalData ::
  "env \<Rightarrow> string \<Rightarrow> string \<Rightarrow> HistoricalDataModel option FetchResult io" where
  "fetchHistoricalData env countryName days =
     io_catch (fetchHistoricalData_try env countryName days)
       (fetchHistoricalData_catch env countryName)"


section \<open>Auxiliary notions\<close>

text \<open>\<^verbatim>\<open>{}\<close>: a \<^verbatim>\<open>CountryData\<close> object without any field.\<close>

definition empty_CountryData :: CountryData where
  "empty_CountryData =
     \<lparr>CountryData.country = None, CountryData.countryInfo = None, CountryData.updated = None,
      CountryData.cases = None, CountryData.todayCases = None, CountryData.deaths = None,
      CountryData.todayDeaths = None, CountryData.recovered = None,
      CountryData.todayRecovered = None, CountryData.active = None,
      CountryData.critical = None, CountryData.casesPerOneMillion = None,
      CountryData.deathsPerOneMillion = None, CountryData.tests = None,
      CountryData.testsPerOneMillion = None, CountryData.population = None,
      CountryData.continent = None, CountryData.oneCasePerPeople = None,
      CountryData.oneDeathPerPeople = None, CountryData.oneTestPerPeople = None,
      CountryData.activePerOneMillion = None, CountryData.recoveredPerOneMillion = None,
      CountryData.criticalPerOneMillion = None\<rparr>"

text \<open>\<^verbatim>\<open>{country: name}\<close>\<close>

definition country_only :: "string \<Rightarrow> CountryData" where
  "country_only name = empty_CountryData\<lparr>CountryData.country := Some name\<rparr>"

text \<open>The model of a country of which only the name is known, built at time \<open>now\<close>.\<close>

definition blank_CountryModel :: "string \<Rightarrow> number \<Rightarrow> CountryModel" where
  "blank_CountryModel name now =
     \<lparr>CountryModel.country = name, CountryModel.countryInfo = default_countryInfo,
      CountryModel.updated = now, CountryModel.cases = 0, CountryModel.todayCases = 0,
      CountryModel.deaths = 0, CountryModel.todayDeaths = 0, CountryModel.recovered = 0,
      CountryModel.todayRecovered = 0, CountryModel.active = 0, CountryModel.critical = 0,
      CountryModel.casesPerOneMillion = 0, CountryModel.deathsPerOneMillion = 0,
      CountryModel.tests = 0, CountryModel.testsPerOneMillion = 0,
      CountryModel.population = 0, CountryModel.continent = [],
      CountryModel.oneCasePerPeople = 0, CountryModel.oneDeathPerPeople = 0,
      CountryModel.oneTestPerPeople = 0, CountryModel.activePerOneMillion = 0,
      CountryModel.recoveredPerOneMillion = 0, CountryModel.criticalPerOneMillion = 0\<rparr>"

text \<open>How often \<^verbatim>\<open>CountryModel.fromArray\<close> reads the clock, and the models it builds.\<close>

definition clock_reads :: "CountryData list \<Rightarrow> nat" where
  "clock_reads items = length (filter (\<lambda>d. or_number (CountryData.updated d) 0 = 0) items)"

definition built_models :: "env \<Rightarrow> CountryData list \<Rightarrow> world \<Rightarrow> CountryModel list" where
  "built_models env items w =
     (case fst (CountryModel_fromArray env items w) of Inl e \<Rightarrow> [] | Inr ms \<Rightarrow> ms)"

definition built_model :: "env \<Rightarrow> CountryData \<Rightarrow> world \<Rightarrow> CountryModel" where
  "built_model env item w =
     (case fst (new_CountryModel env item w) of
        Inl e \<Rightarrow> blank_CountryModel [] 0
      | Inr m \<Rightarrow> m)"

text \<open>The events an operation adds to the trace.\<close>

definition new_events :: "world \<Rightarrow> world \<Rightarrow> event list" where
  "new_events w w' = drop (length (trace w)) (trace w')"

text \<open>
  Collaborators for concrete runs: the probe answers \<open>probe\<close>, the clock shows \<open>now\<close>, the
  list endpoint answers \<open>listing\<close>, the other endpoints are unreachable, and the storage fails
  on writing exactly when \<open>write_fault\<close> is set.
\<close>

definition mock_env ::
  "exn + bool option \<Rightarrow> number \<Rightarrow> exn + CountryData list option \<Rightarrow> exn option \<Rightarrow> env" where
  "mock_env probe now listing write_fault =
     \<lparr>netinfo_fetch = (\<lambda>l. probe),
      date_now = (\<lambda>l. now),
      axios_get_countries = (\<lambda>l url. listing),
      axios_get_country = (\<lambda>l url. Inl (Error ''Network Error'')),
      axios_get_historical = (\<lambda>l url. Inl (Error ''Network Error'')),
      getItem_fault = (\<lambda>l key. None),
      setItem_fault = (\<lambda>l key. write_fault)\<rparr>"

definition mock_world :: "(string \<times> json) list \<Rightarrow> world" where
  "mock_world slots = \<lparr>asyncStorage = map_of slots, isOnline = True, trace = []\<rparr>"



text \<open>
  What a read of a storage key gives the program: \<^verbatim>\<open>null\<close> when the storage call throws
  or the key is unset, the value otherwise.
\<close>

definition stored :: "env \<Rightarrow> (json \<Rightarrow> 'a option) \<Rightarrow> string \<Rightarrow> world \<Rightarrow> 'a option" where
  "stored env parse key w =
     (case getItem_fault env (trace w) key of
        Some e \<Rightarrow> None
      | None \<Rightarrow> (case asyncStorage w key of None \<Rightarrow> None | Some j \<Rightarrow> parse j))"


section \<open>Properties\<close>

subsection \<open>Sequencing\<close>

lemma io_bind_return [simp]: "io_bind (io_return x) f w = f x w"
  by (simp add: io_bind_def io_return_def)

lemma Date_now_bind [simp]:
  "io_bind (Date_now env) f w = f (date_now env (trace w)) (record_event DateNow w)"
  by (simp add: io_bind_def Date_now_def)

subsection \<open>Staleness\<close>

text \<open>
  C1 (amended). \<^verbatim>\<open>isDataStale(m, d)\<close>, with \<open>now\<close> the clock reading, returns true
  exactly when the marker \<open>m\<close> is absent, or is \<open>0\<close>, or \<open>now - m > d\<close>, and false
  otherwise. On the boundary \<open>now - m = d\<close> a marker other than \<open>0\<close> is not stale.
\<close>

theorem isDataStale_characterised:
  "fst (isDataStale env m d w) =
     Inr (case m of None \<Rightarrow> True | Some lu \<Rightarrow> lu = 0 \<or> d < date_now env (trace w) - lu)
   \<and> (lu \<noteq> 0 \<and> date_now env (trace w) - lu = d \<longrightarrow>
          fst (isDataStale env (Some lu) d w) = Inr False)"
  by (auto simp: isDataStale_def io_return_def split: option.splits)

theorem isDataStale_characterised_witness:
  "(7::number) \<noteq> 0
   \<and> date_now (mock_env (Inr (Some True)) 3600007 (Inr None) None) (trace (mock_world [])) - 7
       = 3600000
   \<and> fst (isDataStale (mock_env (Inr (Some True)) 3600007 (Inr None) None) (Some 7) 3600000
            (mock_world []))
       = Inr False"
  using isDataStale_characterised
    [of "mock_env (Inr (Some True)) 3600007 (Inr None) None" "Some 7" 3600000 "mock_world []" 7]
  by (simp add: mock_env_def mock_world_def)

text \<open>
  C1 as stated fails for the marker \<open>0\<close>: with the clock at \<open>5\<close> and a cache duration of
  \<open>10\<close> the marker is present and \<open>now - m > d\<close> is false, yet the result is true.
\<close>

theorem isDataStale_zero_marker:
  "fst (isDataStale (mock_env (Inr (Some True)) 5 (Inr None) None) (Some 0) 10 (mock_world []))
     = Inr True
   \<and> \<not> (10 < date_now (mock_env (Inr (Some True)) 5 (Inr None) None) (trace (mock_world []))
              - 0)"
  by (simp add: isDataStale_def io_return_def mock_env_def mock_world_def)

subsection \<open>Construction of a country record\<close>

text \<open>
  C2 (amended). The record built from \<^verbatim>\<open>{country: name}\<close> has the given name, the empty
  string in every other string field, the zero-valued \<^verbatim>\<open>countryInfo\<close>, and \<open>0\<close> in every
  numeric field except \<^verbatim>\<open>updated\<close>, which is the clock reading. For any input the
  constructor returns a record in which every absent string field is empty, an absent
  \<^verbatim>\<open>countryInfo\<close> is the zero-valued sub-record, an absent \<^verbatim>\<open>updated\<close> is the clock
  reading, and every other absent numeric field is \<open>0\<close>.
\<close>

theorem new_CountryModel_defaults:
  "new_CountryModel env (country_only name) w =
     (Inr \<lparr>CountryModel.country = name,
           CountryModel.countryInfo =
             \<lparr>id' = 0, iso2 = [], iso3 = [], lat = 0, long = 0, flag = []\<rparr>,
           CountryModel.updated = date_now env (trace w),
           CountryModel.cases = 0, CountryModel.todayCases = 0, CountryModel.deaths = 0,
           CountryModel.todayDeaths = 0, CountryModel.recovered = 0,
           CountryModel.todayRecovered = 0, CountryModel.active = 0,
           CountryModel.critical = 0, CountryModel.casesPerOneMillion = 0,
           CountryModel.deathsPerOneMillion = 0, CountryModel.tests = 0,
           CountryModel.testsPerOneMillion = 0, CountryModel.population = 0,
           CountryModel.continent = [], CountryModel.oneCasePerPeople = 0,
           CountryModel.oneDeathPerPeople = 0, CountryModel.oneTestPerPeople = 0,
           CountryModel.activePerOneMillion = 0, CountryModel.recoveredPerOneMillion = 0,
           CountryModel.criticalPerOneMillion = 0\<rparr>,
      record_event DateNow w)
   \<and> (\<exists>m. fst (new_CountryModel env d w) = Inr m
        \<and> (CountryData.country d = None \<longrightarrow> CountryModel.country m = [])
        \<and> (CountryData.continent d = None \<longrightarrow> CountryModel.continent m = [])
        \<and> (CountryData.countryInfo d = None \<longrightarrow>
             CountryModel.countryInfo m
               = \<lparr>id' = 0, iso2 = [], iso3 = [], lat = 0, long = 0, flag = []\<rparr>)
        \<and> (CountryData.updated d = None \<longrightarrow> CountryModel.updated m = date_now env (trace w))
        \<and> (CountryData.cases d = None \<longrightarrow> CountryModel.cases m = 0)
        \<and> (CountryData.todayCases d = None \<longrightarrow> CountryModel.todayCases m = 0)
        \<and> (CountryData.deaths d = None \<longrightarrow> CountryModel.deaths m = 0)
        \<and> (CountryData.todayDeaths d = None \<longrightarrow> CountryModel.todayDeaths m = 0)
        \<and> (CountryData.recovered d = None \<longrightarrow> CountryModel.recovered m = 0)
        \<and> (CountryData.todayRecovered d = None \<longrightarrow> CountryModel.todayRecovered m = 0)
        \<and> (CountryData.active d = None \<longrightarrow> CountryModel.active m = 0)
        \<and> (CountryData.critical d = None \<longrightarrow> CountryModel.critical m = 0)
        \<and> (CountryData.casesPerOneMillion d = None \<longrightarrow> CountryModel.casesPerOneMillion m = 0)
        \<and> (CountryData.deathsPerOneMillion d = None \<longrightarrow>
             CountryModel.deathsPerOneMillion m = 0)
        \<and> (CountryData.tests d = None \<longrightarrow> CountryModel.tests m = 0)
        \<and> (CountryData.testsPerOneMillion d = None \<longrightarrow> CountryModel.testsPerOneMillion m = 0)
        \<and> (CountryData.population d = None \<longrightarrow> CountryModel.population m = 0)
        \<and> (CountryData.oneCasePerPeople d = None \<longrightarrow> CountryModel.oneCasePerPeople m = 0)
        \<and> (CountryData.oneDeathPerPeople d = None \<longrightarrow> CountryModel.oneDeathPerPeople m = 0)
        \<and> (CountryData.oneTestPerPeople d = None \<longrightarrow> CountryModel.oneTestPerPeople m = 0)
        \<and> (CountryData.activePerOneMillion d = None \<longrightarrow>
             CountryModel.activePerOneMillion m = 0)
        \<and> (CountryData.recoveredPerOneMillion d = None \<longrightarrow>
             CountryModel.recoveredPerOneMillion m = 0)
        \<and> (CountryData.criticalPerOneMillion d = None \<longrightarrow>
             CountryModel.criticalPerOneMillion m = 0))"
proof
  show "new_CountryModel env (country_only name) w =
     (Inr \<lparr>CountryModel.country = name,
           CountryModel.countryInfo =
             \<lparr>id' = 0, iso2 = [], iso3 = [], lat = 0, long = 0, flag = []\<rparr>,
           CountryModel.updated = date_now env (trace w),
           CountryModel.cases = 0, CountryModel.todayCases = 0, CountryModel.deaths = 0,
           CountryModel.todayDeaths = 0, CountryModel.recovered = 0,
           CountryModel.todayRecovered = 0, CountryModel.active = 0,
           CountryModel.critical = 0, CountryModel.casesPerOneMillion = 0,
           CountryModel.deathsPerOneMillion = 0, CountryModel.tests = 0,
           CountryModel.testsPerOneMillion = 0, CountryModel.population = 0,
           CountryModel.continent = [], CountryModel.oneCasePerPeople = 0,
           CountryModel.oneDeathPerPeople = 0, CountryModel.oneTestPerPeople = 0,
           CountryModel.activePerOneMillion = 0, CountryModel.recoveredPerOneMillion = 0,
           CountryModel.criticalPerOneMillion = 0\<rparr>,
      record_event DateNow w)"
    by (simp add: new_CountryModel_def country_only_def empty_CountryData_def
        default_countryInfo_def or_number_def or_string_def or_object_def io_return_def)
next
  have "\<exists>u w'. (case CountryData.updated d of
          None \<Rightarrow> Date_now env
        | Some u \<Rightarrow> if u = 0 then Date_now env else io_return u) w = (Inr u, w')
      \<and> (CountryData.updated d = None \<longrightarrow> u = date_now env (trace w))"
    by (cases "CountryData.updated d") (simp_all add: Date_now_def io_return_def)
  then obtain u w' where u: "(case CountryData.updated d of
          None \<Rightarrow> Date_now env
        | Some u \<Rightarrow> if u = 0 then Date_now env else io_return u) w = (Inr u, w')"
     and un: "CountryData.updated d = None \<longrightarrow> u = date_now env (trace w)"
    by auto
  show "\<exists>m. fst (new_CountryModel env d w) = Inr m
        \<and> (CountryData.country d = None \<longrightarrow> CountryModel.country m = [])
        \<and> (CountryData.continent d = None \<longrightarrow> CountryModel.continent m = [])
        \<and> (CountryData.countryInfo d = None \<longrightarrow>
             CountryModel.countryInfo m
               = \<lparr>id' = 0, iso2 = [], iso3 = [], lat = 0, long = 0, flag = []\<rparr>)
        \<and> (CountryData.updated d = None \<longrightarrow> CountryModel.updated m = date_now env (trace w))
        \<and> (CountryData.cases d = None \<longrightarrow> CountryModel.cases m = 0)
        \<and> (CountryData.todayCases d = None \<longrightarrow> CountryModel.todayCases m = 0)
        \<and> (CountryData.deaths d = None \<longrightarrow> CountryModel.deaths m = 0)
        \<and> (CountryData.todayDeaths d = None \<longrightarrow> CountryModel.todayDeaths m = 0)
        \<and> (CountryData.recovered d = None \<longrightarrow> CountryModel.recovered m = 0)
        \<and> (CountryData.todayRecovered d = None \<longrightarrow> CountryModel.todayRecovered m = 0)
        \<and> (CountryData.active d = None \<longrightarrow> CountryModel.active m = 0)
        \<and> (CountryData.critical d = None \<longrightarrow> CountryModel.critical m = 0)
        \<and> (CountryData.casesPerOneMillion d = None \<longrightarrow> CountryModel.casesPerOneMillion m = 0)
        \<and> (CountryData.deathsPerOneMillion d = None \<longrightarrow>
             CountryModel.deathsPerOneMillion m = 0)
        \<and> (CountryData.tests d = None \<longrightarrow> CountryModel.tests m = 0)
        \<and> (CountryData.testsPerOneMillion d = None \<longrightarrow> CountryModel.testsPerOneMillion m = 0)
        \<and> (CountryData.population d = None \<longrightarrow> CountryModel.population m = 0)
        \<and> (CountryData.oneCasePerPeople d = None \<longrightarrow> CountryModel.oneCasePerPeople m = 0)
        \<and> (CountryData.oneDeathPerPeople d = None \<longrightarrow> CountryModel.oneDeathPerPeople m = 0)
        \<and> (CountryData.oneTestPerPeople d = None \<longrightarrow> CountryModel.oneTestPerPeople m = 0)
        \<and> (CountryData.activePerOneMillion d = None \<longrightarrow>
             CountryModel.activePerOneMillion m = 0)
        \<and> (CountryData.recoveredPerOneMillion d = None \<longrightarrow>
             CountryModel.recoveredPerOneMillion m = 0)
        \<and> (CountryData.criticalPerOneMillion d = None \<longrightarrow>
             CountryModel.criticalPerOneMillion m = 0)"
    using u un
    by (simp add: new_CountryModel_def io_bind_def io_return_def default_countryInfo_def
        or_number_def or_string_def or_object_def)
qed

theorem new_CountryModel_defaults_witness:
  "CountryData.cases (country_only ''X'') = None
   \<and> CountryData.updated (country_only ''X'') = None
   \<and> CountryData.continent (country_only ''X'') = None
   \<and> CountryData.countryInfo (country_only ''X'') = None
   \<and> (\<exists>m. fst (new_CountryModel (mock_env (Inr (Some True)) 1700000000000 (Inr None) None)
                (country_only ''X'') (mock_world [])) = Inr m
          \<and> CountryModel.cases m = 0 \<and> CountryModel.updated m = 1700000000000
          \<and> CountryModel.continent m = []
          \<and> CountryModel.countryInfo m
              = \<lparr>id' = 0, iso2 = [], iso3 = [], lat = 0, long = 0, flag = []\<rparr>)"
  using new_CountryModel_defaults
    [of "mock_env (Inr (Some True)) 1700000000000 (Inr None) None" "''X''" "mock_world []"
        "country_only ''X''"]
  by (simp add: country_only_def empty_CountryData_def mock_env_def mock_world_def)

text \<open>
  C2 as stated fails for \<^verbatim>\<open>updated\<close>: built from \<^verbatim>\<open>{country: "X"}\<close> when the clock
  shows \<open>1700000000000\<close>, the record carries that time and not \<open>0\<close>.
\<close>

theorem new_CountryModel_updated_now:
  "fst (new_CountryModel (mock_env (Inr (Some True)) 1700000000000 (Inr None) None)
         (country_only ''X'') (mock_world []))
     = Inr (blank_CountryModel ''X'' 1700000000000)
   \<and> CountryModel.updated (blank_CountryModel ''X'' 1700000000000) \<noteq> 0"
  by (simp add: new_CountryModel_def country_only_def empty_CountryData_def
        default_countryInfo_def or_number_def or_string_def or_object_def io_return_def
        blank_CountryModel_def mock_env_def mock_world_def)

subsection \<open>Decimal digits and toFixed\<close>






















subsection \<open>Derived rates\<close>



subsection \<open>Chart data\<close>

lemma slash_not_digit: "\<not> is_digit CHR ''/''"
  by (simp add: is_digit_def)

lemma date_key_not_index: "CHR ''/'' \<in> set k \<Longrightarrow> \<not> is_array_index k"
  using slash_not_digit by (auto simp: is_array_index_def list_all_iff)

lemma Object_keys_dates:
  assumes "\<forall>k \<in> set (map fst obj). CHR ''/'' \<in> set k"
  shows "Object_keys obj = map fst obj"
proof -
  have "\<forall>k \<in> set (map fst obj). \<not> is_array_index k"
    using assms date_key_not_index by blast
  then have "filter is_array_index (map fst obj) = []"
    and "filter (\<lambda>k. \<not> is_array_index k) (map fst obj) = map fst obj"
    by (simp_all add: filter_empty_conv)
  then show ?thesis by (simp add: Object_keys_def)
qed

lemma split_at_separator: "c \<notin> set a \<Longrightarrow> split c (a @ c # rest) = a # split c rest"
  by (induction a) auto

lemma formatDate_month_day:
  assumes "CHR ''/'' \<notin> set mm" "CHR ''/'' \<notin> set dd"
  shows "formatDate (mm @ ''/'' @ dd @ ''/'' @ yy) = mm @ ''/'' @ dd"
proof -
  have "split CHR ''/'' (mm @ CHR ''/'' # dd @ CHR ''/'' # yy)
      = mm # dd # split CHR ''/'' yy"
    using assms by (simp add: split_at_separator)
  then show ?thesis
    by (simp add: formatDate_def element_def template_def)
qed

lemma or_number_zero: "or_number x 0 = (case x of None \<Rightarrow> 0 | Some v \<Rightarrow> v)"
  by (simp add: or_number_def split: option.splits)

text \<open>
  C4. For a historical series whose \<^verbatim>\<open>cases\<close> keys are dates (each contains a slash),
  the chart points are one per \<^verbatim>\<open>cases\<close> key, in the order of insertion, each with the
  formatted key as its date and with cases, deaths and recovered read under the same key,
  \<open>0\<close> when the key is missing. A key \<open>month/day/year\<close> is formatted as \<open>month/day\<close>.
  For cases \<^verbatim>\<open>{"3/1/21": 10, "3/2/21": 20}\<close>, deaths \<^verbatim>\<open>{"3/1/21": 1}\<close> and recovered
  \<^verbatim>\<open>{}\<close> the points are \<^verbatim>\<open>{3/1, 10, 1, 0}\<close> and \<^verbatim>\<open>{3/2, 20, 0, 0}\<close>, in that order.
\<close>

theorem getChartData_spec:
  "((\<forall>k \<in> set (map fst (Timeline.cases (HistoricalDataModel.timeline this))).
       CHR ''/'' \<in> set k) \<longrightarrow>
     getChartData this =
       map (\<lambda>key.
             \<lparr>ChartDataPoint.date = formatDate key,
              ChartDataPoint.cases =
                (case map_of (Timeline.cases (HistoricalDataModel.timeline this)) key of
                   None \<Rightarrow> 0 | Some v \<Rightarrow> v),
              ChartDataPoint.deaths =
                (case map_of (Timeline.deaths (HistoricalDataModel.timeline this)) key of
                   None \<Rightarrow> 0 | Some v \<Rightarrow> v),
              ChartDataPoint.recovered =
                (case map_of (Timeline.recovered (HistoricalDataModel.timeline this)) key of
                   None \<Rightarrow> 0 | Some v \<Rightarrow> v)\<rparr>)
           (map fst (Timeline.cases (HistoricalDataModel.timeline this))))
   \<and> (CHR ''/'' \<notin> set mm \<and> CHR ''/'' \<notin> set dd \<longrightarrow>
        formatDate (mm @ ''/'' @ dd @ ''/'' @ yy) = mm @ ''/'' @ dd)
   \<and> getChartData
        (new_HistoricalDataModel
           \<lparr>HistoricalData.country = Some ''X'', HistoricalData.province = None,
            HistoricalData.timeline =
              Some \<lparr>HistoricalTimeline.cases = Some [(''3/1/21'', 10), (''3/2/21'', 20)],
                    HistoricalTimeline.deaths = Some [(''3/1/21'', 1)],
                    HistoricalTimeline.recovered = Some []\<rparr>\<rparr>)
      = [\<lparr>ChartDataPoint.date = ''3/1'', ChartDataPoint.cases = 10,
          ChartDataPoint.deaths = 1, ChartDataPoint.recovered = 0\<rparr>,
         \<lparr>ChartDataPoint.date = ''3/2'', ChartDataPoint.cases = 20,
          ChartDataPoint.deaths = 0, ChartDataPoint.recovered = 0\<rparr>]"
proof (intro conjI impI)
  assume "\<forall>k \<in> set (map fst (Timeline.cases (HistoricalDataModel.timeline this))).
       CHR ''/'' \<in> set k"
  then have "Object_keys (Timeline.cases (HistoricalDataModel.timeline this))
      = map fst (Timeline.cases (HistoricalDataModel.timeline this))"
    by (rule Object_keys_dates)
  then show "getChartData this =
       map (\<lambda>key.
             \<lparr>ChartDataPoint.date = formatDate key,
              ChartDataPoint.cases =
                (case map_of (Timeline.cases (HistoricalDataModel.timeline this)) key of
                   None \<Rightarrow> 0 | Some v \<Rightarrow> v),
              ChartDataPoint.deaths =
                (case map_of (Timeline.deaths (HistoricalDataModel.timeline this)) key of
                   None \<Rightarrow> 0 | Some v \<Rightarrow> v),
              ChartDataPoint.recovered =
                (case map_of (Timeline.recovered (HistoricalDataModel.timeline this)) key of
                   None \<Rightarrow> 0 | Some v \<Rightarrow> v)\<rparr>)
           (map fst (Timeline.cases (HistoricalDataModel.timeline this)))"
    by (simp add: getChartData_def property_def or_number_zero)
next
  assume "CHR ''/'' \<notin> set mm \<and> CHR ''/'' \<notin> set dd"
  then show "formatDate (mm @ ''/'' @ dd @ ''/'' @ yy) = mm @ ''/'' @ dd"
    using formatDate_month_day [of mm dd yy] by blast
next
  have keys: "Object_keys [(''3/1/21'', 10), (''3/2/21'', 20)] = [''3/1/21'', ''3/2/21'']"
    by (rule trans [OF Object_keys_dates]) simp_all
  have d1: "formatDate ''3/1/21'' = ''3/1''"
    using formatDate_month_day [of "''3''" "''1''" "''21''"] by simp
  have d2: "formatDate ''3/2/21'' = ''3/2''"
    using formatDate_month_day [of "''3''" "''2''" "''21''"] by simp
  show "getChartData
        (new_HistoricalDataModel
           \<lparr>HistoricalData.country = Some ''X'', HistoricalData.province = None,
            HistoricalData.timeline =
              Some \<lparr>HistoricalTimeline.cases = Some [(''3/1/21'', 10), (''3/2/21'', 20)],
                    HistoricalTimeline.deaths = Some [(''3/1/21'', 1)],
                    HistoricalTimeline.recovered = Some []\<rparr>\<rparr>)
      = [\<lparr>ChartDataPoint.date = ''3/1'', ChartDataPoint.cases = 10,
          ChartDataPoint.deaths = 1, ChartDataPoint.recovered = 0\<rparr>,
         \<lparr>ChartDataPoint.date = ''3/2'', ChartDataPoint.cases = 20,
          ChartDataPoint.deaths = 0, ChartDataPoint.recovered = 0\<rparr>]"
    by (simp add: getChartData_def new_HistoricalDataModel_def optional_chain_def
        or_object_def or_string_def keys d1 d2 property_def or_number_def)
qed

theorem getChartData_spec_witness:
  "CHR ''/'' \<in> set ''12/31/20'' \<and> CHR ''/'' \<in> set ''1/1/21''
   \<and> CHR ''/'' \<notin> set ''12'' \<and> CHR ''/'' \<notin> set ''31''
   \<and> formatDate ''12/31/20'' = ''12/31''
   \<and> getChartData
        \<lparr>HistoricalDataModel.country = ''X'', HistoricalDataModel.province = [],
         HistoricalDataModel.timeline =
           \<lparr>Timeline.cases = [(''12/31/20'', 7), (''1/1/21'', 9)],
            Timeline.deaths = [(''1/1/21'', 2)], Timeline.recovered = []\<rparr>\<rparr>
       = [\<lparr>ChartDataPoint.date = ''12/31'', ChartDataPoint.cases = 7,
           ChartDataPoint.deaths = 0, ChartDataPoint.recovered = 0\<rparr>,
          \<lparr>ChartDataPoint.date = formatDate ''1/1/21'', ChartDataPoint.cases = 9,
           ChartDataPoint.deaths = 2, ChartDataPoint.recovered = 0\<rparr>]"
  using getChartData_spec
    [of "\<lparr>HistoricalDataModel.country = ''X'', HistoricalDataModel.province = [],
         HistoricalDataModel.timeline =
           \<lparr>Timeline.cases = [(''12/31/20'', 7), (''1/1/21'', 9)],
            Timeline.deaths = [(''1/1/21'', 2)], Timeline.recovered = []\<rparr>\<rparr>"
        "''12''" "''31''" "''20''"]
  by simp

subsection \<open>Events and storage reads\<close>

lemma io_catch_return [simp]: "io_catch (io_return x) h w = (Inr x, w)"
  by (simp add: io_catch_def io_return_def)

lemma trace_record_event [simp]: "trace (record_event ev w) = trace w @ [ev]"
  by (simp add: record_event_def)

lemma asyncStorage_record_event [simp]: "asyncStorage (record_event ev w) = asyncStorage w"
  by (simp add: record_event_def)

lemma isOnline_record_event [simp]: "isOnline (record_event ev w) = isOnline w"
  by (simp add: record_event_def)

lemma new_events_append [simp]: "trace w' = trace w @ evs \<Longrightarrow> new_events w w' = evs"
  by (simp add: new_events_def)

subsection \<open>Runs of the storage layer\<close>

lemma StorageService_getItem_run:
  "StorageService_getItem env parse key w
     = (Inr (stored env parse key w), record_event (AsyncStorageGetItem key) w)"
  by (simp add: StorageService_getItem_def io_catch_def io_bind_def AsyncStorage_getItem_def
      io_return_def stored_def split: option.splits)

lemma getCountriesData_run:
  "getCountriesData env w
     = (Inr (stored env as_countries COUNTRIES_DATA w),
        record_event (AsyncStorageGetItem COUNTRIES_DATA) w)"
  by (simp add: getCountriesData_def io_catch_def StorageService_getItem_run)

lemma getLastUpdateTime_run:
  "getLastUpdateTime env w
     = (Inr (stored env as_number LAST_UPDATE w),
        record_event (AsyncStorageGetItem LAST_UPDATE) w)"
  by (simp add: getLastUpdateTime_def io_catch_def StorageService_getItem_run)

lemma getHistoricalData_run:
  "getHistoricalData env countryName w
     = (Inr (stored env as_historical (HISTORICAL_PREFIX @ countryName) w),
        record_event (AsyncStorageGetItem (HISTORICAL_PREFIX @ countryName)) w)"
  by (simp add: getHistoricalData_def io_catch_def StorageService_getItem_run)

lemma StorageService_setItem_run:
  "StorageService_setItem env key v w =
     (case setItem_fault env (trace w) key of
        Some e \<Rightarrow> (Inr False, record_event (AsyncStorageSetItem key) w)
      | None \<Rightarrow> (Inr True, record_event (AsyncStorageSetItem key)
                     (w\<lparr>asyncStorage := (asyncStorage w)(key \<mapsto> v)\<rparr>)))"
  by (simp add: StorageService_setItem_def io_catch_def io_bind_def AsyncStorage_setItem_def
      io_return_def split: option.splits)

lemma saveHistoricalData_run:
  "saveHistoricalData env countryName d w =
     (case setItem_fault env (trace w) (HISTORICAL_PREFIX @ countryName) of
        Some e \<Rightarrow> (Inr False, record_event (AsyncStorageSetItem (HISTORICAL_PREFIX @ countryName)) w)
      | None \<Rightarrow> (Inr True, record_event (AsyncStorageSetItem (HISTORICAL_PREFIX @ countryName))
                     (w\<lparr>asyncStorage := (asyncStorage w)(HISTORICAL_PREFIX @ countryName \<mapsto> JHistorical d)\<rparr>)))"
  by (simp add: saveHistoricalData_def io_catch_def StorageService_setItem_run split: option.splits)

text \<open>The world after \<^verbatim>\<open>saveCountriesData\<close>.\<close>

lemma saveCountriesData_run:
  "saveCountriesData env countries w =
     (case setItem_fault env (trace w) COUNTRIES_DATA of
        Some e \<Rightarrow> (Inr False, record_event (AsyncStorageSetItem COUNTRIES_DATA) w)
      | None \<Rightarrow>
         (Inr True,
          (case setItem_fault env
                  (trace w @ [AsyncStorageSetItem COUNTRIES_DATA, DateNow]) LAST_UPDATE of
             Some e \<Rightarrow>
               w\<lparr>asyncStorage := (asyncStorage w)(COUNTRIES_DATA \<mapsto> JCountries countries),
                  trace := trace w @ [AsyncStorageSetItem COUNTRIES_DATA, DateNow,
                                      AsyncStorageSetItem LAST_UPDATE]\<rparr>
           | None \<Rightarrow>
               w\<lparr>asyncStorage := (asyncStorage w)
                    (COUNTRIES_DATA \<mapsto> JCountries countries,
                     LAST_UPDATE \<mapsto>
                       JNumber (date_now env (trace w @ [AsyncStorageSetItem COUNTRIES_DATA]))),
                  trace := trace w @ [AsyncStorageSetItem COUNTRIES_DATA, DateNow,
                                      AsyncStorageSetItem LAST_UPDATE]\<rparr>)))"
  by (simp add: saveCountriesData_def io_catch_def io_bind_def StorageService_setItem_run
      Date_now_def io_return_def record_event_def split: option.splits)

subsection \<open>Runs of the API layer\<close>

lemma ApiService_getAllCountries_run:
  "ApiService_getAllCountries env w =
     (Inr (case axios_get_countries env (trace w) ALL_COUNTRIES of
             Inl e \<Rightarrow> \<lparr>ApiResponse.success = False, data = None, error = Some (error_message e)\<rparr>
           | Inr d \<Rightarrow> \<lparr>ApiResponse.success = True, data = d, error = None\<rparr>),
      record_event (AxiosGet ALL_COUNTRIES) w)"
  by (simp add: ApiService_getAllCountries_def io_catch_def io_bind_def axios_get_def
      io_return_def split: sum.splits)

lemma ApiService_getCountry_run:
  "ApiService_getCountry env countryName w =
     (Inr (case axios_get_country env (trace w) (COUNTRY @ ''/'' @ countryName) of
             Inl e \<Rightarrow> \<lparr>ApiResponse.success = False, data = None, error = Some (error_message e)\<rparr>
           | Inr d \<Rightarrow> \<lparr>ApiResponse.success = True, data = d, error = None\<rparr>),
      record_event (AxiosGet (COUNTRY @ ''/'' @ countryName)) w)"
  by (simp add: ApiService_getCountry_def io_catch_def io_bind_def axios_get_def
      io_return_def split: sum.splits)

lemma ApiService_getHistoricalData_run:
  "ApiService_getHistoricalData env countryName days w =
     (Inr (case axios_get_historical env (trace w)
                  (HISTORICAL @ ''/'' @ countryName @ ''?lastdays='' @ days) of
             Inl e \<Rightarrow> \<lparr>ApiResponse.success = False, data = None, error = Some (error_message e)\<rparr>
           | Inr d \<Rightarrow> \<lparr>ApiResponse.success = True, data = d, error = None\<rparr>),
      record_event (AxiosGet (HISTORICAL @ ''/'' @ countryName @ ''?lastdays='' @ days)) w)"
  by (simp add: ApiService_getHistoricalData_def io_catch_def io_bind_def axios_get_def
      io_return_def split: sum.splits)

subsection \<open>Runs of the model constructors\<close>

lemma new_CountryModel_run:
  "new_CountryModel env d w =
     (Inr (built_model env d w),
      if or_number (CountryData.updated d) 0 = 0 then record_event DateNow w else w)"
  by (simp add: built_model_def new_CountryModel_def io_bind_def io_return_def Date_now_def
      or_number_def split: option.splits)

lemma CountryModel_fromArray_returns:
  "\<exists>ms. CountryModel_fromArray env items w =
     (Inr ms, w\<lparr>trace := trace w @ replicate (clock_reads items) DateNow\<rparr>)
     \<and> map CountryModel.country ms = map (\<lambda>d. or_string (CountryData.country d) []) items"
proof (induction items arbitrary: w)
  case Nil
  show ?case by (simp add: io_return_def clock_reads_def)
next
  case (Cons item rest)
  define w1 where
    "w1 = (if or_number (CountryData.updated item) 0 = 0 then record_event DateNow w else w)"
  obtain ms where ms: "CountryModel_fromArray env rest w1 =
      (Inr ms, w1\<lparr>trace := trace w1 @ replicate (clock_reads rest) DateNow\<rparr>)"
    and names: "map CountryModel.country ms = map (\<lambda>d. or_string (CountryData.country d) []) rest"
    using Cons.IH [of w1] by blast
  have first: "new_CountryModel env item w = (Inr (built_model env item w), w1)"
    by (simp add: new_CountryModel_run w1_def)
  have name: "CountryModel.country (built_model env item w) = or_string (CountryData.country item) []"
    by (simp add: built_model_def new_CountryModel_def io_bind_def io_return_def Date_now_def
        split: option.splits)
  have "CountryModel_fromArray env (item # rest) w =
      (Inr (built_model env item w # ms),
       w1\<lparr>trace := trace w1 @ replicate (clock_reads rest) DateNow\<rparr>)"
    by (simp add: io_bind_def first ms io_return_def)
  moreover have "w1\<lparr>trace := trace w1 @ replicate (clock_reads rest) DateNow\<rparr>
      = w\<lparr>trace := trace w @ replicate (clock_reads (item # rest)) DateNow\<rparr>"
    by (simp add: w1_def clock_reads_def record_event_def replicate_app_Cons_same)
  ultimately show ?case using names name by simp
qed

lemma CountryModel_fromArray_run:
  "CountryModel_fromArray env items w =
     (Inr (built_models env items w),
      w\<lparr>trace := trace w @ replicate (clock_reads items) DateNow\<rparr>)"
  using CountryModel_fromArray_returns [of env items w] by (auto simp: built_models_def)

lemma country_built_models:
  "map CountryModel.country (built_models env items w)
     = map (\<lambda>d. or_string (CountryData.country d) []) items"
  using CountryModel_fromArray_returns [of env items w] by (auto simp: built_models_def)

subsection \<open>Sequencing through the layers\<close>

lemma checkConnection_run:
  "checkConnection env w =
     (case netinfo_fetch env (trace w) of
        Inl e \<Rightarrow> (Inl e, record_event NetInfoFetch w)
      | Inr c \<Rightarrow> (Inr (c = Some True), (record_event NetInfoFetch w)\<lparr>isOnline := (c = Some True)\<rparr>))"
  by (auto simp: checkConnection_def io_bind_def NetInfo_fetch_def Let_def
      split: sum.splits option.splits)

lemma isDataStale_run:
  "isDataStale env lastUpdate d w =
     (case lastUpdate of
        None \<Rightarrow> (Inr True, w)
      | Some lu \<Rightarrow>
          if lu = 0 then (Inr True, w)
          else (Inr (d < date_now env (trace w) - lu), record_event DateNow w))"
  by (simp add: isDataStale_def io_return_def split: option.splits)

subsection \<open>No operation throws\<close>












subsection \<open>Runs of the controller\<close>

lemma stored_reliable:
  "\<forall>l k. getItem_fault env l k = None \<Longrightarrow>
     stored env parse key w = (case asyncStorage w key of None \<Rightarrow> None | Some j \<Rightarrow> parse j)"
  by (simp add: stored_def)


lemmas run_simps =
  io_bind_def io_catch_def io_return_def checkConnection_run getLastUpdateTime_run
  isDataStale_run getCountriesData_run getHistoricalData_run CountryModel_fromArray_run
  new_CountryModel_run ApiService_getAllCountries_run ApiService_getCountry_run
  ApiService_getHistoricalData_run saveCountriesData_run saveHistoricalData_run

text \<open>
  C6. When the storage answers its reads, the freshness marker is fresh at the staleness check
  (a marker other than \<open>0\<close> whose age at the clock reading taken after the probe and the
  marker read does not exceed the cache duration) and the country-list slot is populated,
  \<^verbatim>\<open>fetchAllCountries(false)\<close> returns success with \<^verbatim>\<open>fromCache = true\<close> and the
  cached countries, and no HTTP request is made; this holds whatever the probe does.
\<close>

theorem fresh_cache_served:
  assumes reads: "\<forall>l k. getItem_fault env l k = None"
    and marker: "asyncStorage w LAST_UPDATE = Some (JNumber m)"
    and fresh: "m \<noteq> 0"
      "\<not> CACHE_DURATION
           < date_now env (trace w @ [NetInfoFetch, AsyncStorageGetItem LAST_UPDATE]) - m"
    and cache: "asyncStorage w COUNTRIES_DATA = Some (JCountries cs)"
  shows "\<exists>result w'.
           fetchAllCountries env False w = (Inr result, w')
           \<and> success result \<and> fromCache result = Some True
           \<and> map CountryModel.country (data result)
               = map (\<lambda>d. or_string (CountryData.country d) []) cs
           \<and> (\<forall>url. AxiosGet url \<notin> set (new_events w w'))"
proof (cases "netinfo_fetch env (trace w)")
  case (Inl e)
  then show ?thesis
    using reads cache
    by (simp add: fetchAllCountries_def fetchAllCountries_try_def
        fetchAllCountries_rest_def fetchAllCountries_catch_def
        run_simps stored_reliable new_events_def country_built_models)
next
  case (Inr c)
  then show ?thesis
    using assms
    by (simp add: fetchAllCountries_def fetchAllCountries_try_def
        fetchAllCountries_rest_def run_simps stored_reliable
        new_events_def country_built_models)
qed

theorem fresh_cache_served_witness:
  "\<exists>result w'.
     fetchAllCountries (mock_env (Inr (Some True)) 1700000000000 (Inr None) None) False
       (mock_world [(LAST_UPDATE, JNumber 1699999000000),
                    (COUNTRIES_DATA, JCountries [country_only ''Peru''])])
       = (Inr result, w')
     \<and> success result \<and> fromCache result = Some True
     \<and> map CountryModel.country (data result) = [''Peru'']
     \<and> (\<forall>url. AxiosGet url
           \<notin> set (new_events
                 (mock_world [(LAST_UPDATE, JNumber 1699999000000),
                              (COUNTRIES_DATA, JCountries [country_only ''Peru''])]) w'))"
  using fresh_cache_served
    [of "mock_env (Inr (Some True)) 1700000000000 (Inr None) None"
        "mock_world [(LAST_UPDATE, JNumber 1699999000000),
                     (COUNTRIES_DATA, JCountries [country_only ''Peru''])]"
        1699999000000 "[country_only ''Peru'']"]
  by (simp add: mock_env_def mock_world_def LAST_UPDATE_def COUNTRIES_DATA_def
      CACHE_DURATION_def country_only_def empty_CountryData_def or_string_def)

text \<open>
  C7 (amended). When the probe reports offline (\<^verbatim>\<open>isConnected\<close> false or \<^verbatim>\<open>null\<close>)
  and the storage answers its reads, each operation succeeds from the cache, with
  \<^verbatim>\<open>fromCache = true\<close> and without an HTTP request, provided the cache holds what is asked
  for: the country list for \<^verbatim>\<open>fetchAllCountries\<close>; a country list with an entry whose
  \<^verbatim>\<open>country\<close> is exactly the requested name for \<^verbatim>\<open>fetchCountryDetails\<close>; the series
  stored under the requested name for \<^verbatim>\<open>fetchHistoricalData\<close>.
\<close>

theorem offline_cache_fallback:
  assumes reads: "\<forall>l k. getItem_fault env l k = None"
    and offline: "netinfo_fetch env (trace w) = Inr c" "c \<noteq> Some True"
  shows "(asyncStorage w COUNTRIES_DATA = Some (JCountries cs) \<longrightarrow>
            (\<exists>result w'.
               fetchAllCountries env forceRefresh w = (Inr result, w')
               \<and> success result \<and> fromCache result = Some True
               \<and> map CountryModel.country (data result)
                   = map (\<lambda>d. or_string (CountryData.country d) []) cs
               \<and> (\<forall>url. AxiosGet url \<notin> set (new_events w w'))))
       \<and> (asyncStorage w COUNTRIES_DATA = Some (JCountries cs)
            \<and> (\<exists>d \<in> set cs. CountryData.country d = Some countryName) \<longrightarrow>
            (\<exists>result model w'.
               fetchCountryDetails env countryName w = (Inr result, w')
               \<and> success result \<and> fromCache result = Some True
               \<and> data result = Some model \<and> CountryModel.country model = countryName
               \<and> (\<forall>url. AxiosGet url \<notin> set (new_events w w'))))
       \<and> (asyncStorage w (HISTORICAL_PREFIX @ countryName) = Some (JHistorical h) \<longrightarrow>
            (\<exists>result w'.
               fetchHistoricalData env countryName days w = (Inr result, w')
               \<and> success result \<and> fromCache result = Some True
               \<and> data result = Some (new_HistoricalDataModel h)
               \<and> (\<forall>url. AxiosGet url \<notin> set (new_events w w'))))"
proof (intro conjI impI)
  assume cache: "asyncStorage w COUNTRIES_DATA = Some (JCountries cs)"
  show "\<exists>result w'.
               fetchAllCountries env forceRefresh w = (Inr result, w')
               \<and> success result \<and> fromCache result = Some True
               \<and> map CountryModel.country (data result)
                   = map (\<lambda>d. or_string (CountryData.country d) []) cs
               \<and> (\<forall>url. AxiosGet url \<notin> set (new_events w w'))"
    using reads offline cache
    by (simp add: fetchAllCountries_def fetchAllCountries_try_def
        fetchAllCountries_rest_def run_simps stored_reliable
        new_events_def country_built_models split: option.splits)
next
  assume "asyncStorage w COUNTRIES_DATA = Some (JCountries cs)
            \<and> (\<exists>d \<in> set cs. CountryData.country d = Some countryName)"
  then have cache: "asyncStorage w COUNTRIES_DATA = Some (JCountries cs)"
    and "\<exists>d \<in> set cs. CountryData.country d = Some countryName" by simp_all
  then obtain d where d: "find_country cs countryName = Some d"
    and name: "CountryData.country d = Some countryName"
    unfolding find_country_def
    by (cases "find (\<lambda>c. CountryData.country c = Some countryName) cs")
       (auto simp: find_None_iff dest: find_Some_iff [THEN iffD1])
  have model: "CountryModel.country (built_model env d w0) = countryName" for w0
    using name
    by (simp add: built_model_def new_CountryModel_def io_bind_def io_return_def Date_now_def
        or_string_def split: option.splits)
  show "\<exists>result model w'.
               fetchCountryDetails env countryName w = (Inr result, w')
               \<and> success result \<and> fromCache result = Some True
               \<and> data result = Some model \<and> CountryModel.country model = countryName
               \<and> (\<forall>url. AxiosGet url \<notin> set (new_events w w'))"
    using reads offline cache d model
    by (simp add: fetchCountryDetails_def fetchCountryDetails_try_def run_simps stored_reliable
        new_events_def record_event_def)
next
  assume cache: "asyncStorage w (HISTORICAL_PREFIX @ countryName) = Some (JHistorical h)"
  show "\<exists>result w'.
               fetchHistoricalData env countryName days w = (Inr result, w')
               \<and> success result \<and> fromCache result = Some True
               \<and> data result = Some (new_HistoricalDataModel h)
               \<and> (\<forall>url. AxiosGet url \<notin> set (new_events w w'))"
    using reads offline cache
    by (simp add: fetchHistoricalData_def fetchHistoricalData_try_def run_simps stored_reliable
        new_events_def)
qed

theorem offline_cache_fallback_witness:
  "(\<exists>result w'.
      fetchAllCountries (mock_env (Inr (Some False)) 1700000000000 (Inr None) None) True
        (mock_world [(COUNTRIES_DATA, JCountries [country_only ''Peru'']),
                     (HISTORICAL_PREFIX @ ''Peru'',
                      JHistorical \<lparr>HistoricalData.country = Some ''Peru'',
                                   HistoricalData.province = None,
                                   HistoricalData.timeline = None\<rparr>)])
        = (Inr result, w')
      \<and> success result \<and> fromCache result = Some True)
   \<and> (\<exists>result w'.
      fetchCountryDetails (mock_env (Inr (Some False)) 1700000000000 (Inr None) None) ''Peru''
        (mock_world [(COUNTRIES_DATA, JCountries [country_only ''Peru'']),
                     (HISTORICAL_PREFIX @ ''Peru'',
                      JHistorical \<lparr>HistoricalData.country = Some ''Peru'',
                                   HistoricalData.province = None,
                                   HistoricalData.timeline = None\<rparr>)])
        = (Inr result, w')
      \<and> success result \<and> fromCache result = Some True)
   \<and> (\<exists>result w'.
      fetchHistoricalData (mock_env (Inr (Some False)) 1700000000000 (Inr None) None) ''Peru''
        ''all''
        (mock_world [(COUNTRIES_DATA, JCountries [country_only ''Peru'']),
                     (HISTORICAL_PREFIX @ ''Peru'',
                      JHistorical \<lparr>HistoricalData.country = Some ''Peru'',
                                   HistoricalData.province = None,
                                   HistoricalData.timeline = None\<rparr>)])
        = (Inr result, w')
      \<and> success result \<and> fromCache result = Some True)"
proof -
  let ?env = "mock_env (Inr (Some False)) 1700000000000 (Inr None) None"
  let ?h = "\<lparr>HistoricalData.country = Some ''Peru'', HistoricalData.province = None,
             HistoricalData.timeline = None\<rparr>"
  let ?w = "mock_world [(COUNTRIES_DATA, JCountries [country_only ''Peru'']),
                        (HISTORICAL_PREFIX @ ''Peru'', JHistorical ?h)]"
  have reads: "\<forall>l k. getItem_fault ?env l k = None"
    by (simp add: mock_env_def)
  have offline: "netinfo_fetch ?env (trace ?w) = Inr (Some False)" "Some False \<noteq> Some True"
    by (simp_all add: mock_env_def)
  have list: "asyncStorage ?w COUNTRIES_DATA = Some (JCountries [country_only ''Peru''])"
    by (simp add: mock_world_def COUNTRIES_DATA_def HISTORICAL_PREFIX_def)
  have entry: "\<exists>d \<in> set [country_only ''Peru'']. CountryData.country d = Some ''Peru''"
    by (simp add: country_only_def)
  have series: "asyncStorage ?w (HISTORICAL_PREFIX @ ''Peru'') = Some (JHistorical ?h)"
    by (simp add: mock_world_def COUNTRIES_DATA_def HISTORICAL_PREFIX_def)
  show ?thesis
    using offline_cache_fallback
      [OF reads offline, of "[country_only ''Peru'']" True "''Peru''" ?h "''all''"]
      list entry series
    by blast
qed

text \<open>
  C7 as stated fails for \<^verbatim>\<open>fetchCountryDetails\<close>: offline, with the country-list slot
  holding the single country \<open>A\<close>, a request for \<open>B\<close> fails although the slot is populated.
\<close>

theorem offline_details_not_in_cache:
  "fst (fetchCountryDetails (mock_env (Inr (Some False)) 1700000000000 (Inr None) None) ''B''
          (mock_world [(COUNTRIES_DATA, JCountries [country_only ''A''])]))
     = Inr \<lparr>success = False, data = None, fromCache = None, message = None,
            error = Some ''Country data not available''\<rparr>
   \<and> asyncStorage (mock_world [(COUNTRIES_DATA, JCountries [country_only ''A''])])
        COUNTRIES_DATA
       = Some (JCountries [country_only ''A''])"
  by (simp add: fetchCountryDetails_def fetchCountryDetails_try_def run_simps stored_def
      find_country_def mock_env_def mock_world_def country_only_def empty_CountryData_def)

text \<open>
  C10. When the storage answers its reads, the probe reports online, the freshness marker is
  fresh at the staleness check and the country-list slot is empty,
  \<^verbatim>\<open>fetchAllCountries(false)\<close> fails with the error \<open>No data available\<close> and empty data.
  It reads the marker, the clock and, twice, the empty slot; it makes no HTTP request.
\<close>

theorem fresh_marker_empty_cache:
  assumes reads: "\<forall>l k. getItem_fault env l k = None"
    and online: "netinfo_fetch env (trace w) = Inr (Some True)"
    and marker: "asyncStorage w LAST_UPDATE = Some (JNumber m)"
    and fresh: "m \<noteq> 0"
      "\<not> CACHE_DURATION
           < date_now env (trace w @ [NetInfoFetch, AsyncStorageGetItem LAST_UPDATE]) - m"
    and empty: "asyncStorage w COUNTRIES_DATA = None"
  shows "fst (fetchAllCountries env False w) =
           Inr \<lparr>success = False, data = [], fromCache = None, message = None,
                error = Some ''No data available''\<rparr>
         \<and> new_events w (snd (fetchAllCountries env False w)) =
             [NetInfoFetch, AsyncStorageGetItem LAST_UPDATE, DateNow,
              AsyncStorageGetItem COUNTRIES_DATA, AsyncStorageGetItem COUNTRIES_DATA]
         \<and> (\<forall>url. AxiosGet url
                  \<notin> set (new_events w (snd (fetchAllCountries env False w))))"
  using assms
  by (simp add: fetchAllCountries_def fetchAllCountries_try_def
        fetchAllCountries_rest_def run_simps stored_reliable
      new_events_def)

theorem fresh_marker_empty_cache_witness:
  "fst (fetchAllCountries (mock_env (Inr (Some True)) 1700000000000 (Inr None) None) False
          (mock_world [(LAST_UPDATE, JNumber 1699999000000)]))
     = Inr \<lparr>success = False, data = [], fromCache = None, message = None,
            error = Some ''No data available''\<rparr>
   \<and> new_events (mock_world [(LAST_UPDATE, JNumber 1699999000000)])
        (snd (fetchAllCountries (mock_env (Inr (Some True)) 1700000000000 (Inr None) None)
                False (mock_world [(LAST_UPDATE, JNumber 1699999000000)])))
       = [NetInfoFetch, AsyncStorageGetItem LAST_UPDATE, DateNow,
          AsyncStorageGetItem COUNTRIES_DATA, AsyncStorageGetItem COUNTRIES_DATA]"
  using fresh_marker_empty_cache
    [of "mock_env (Inr (Some True)) 1700000000000 (Inr None) None"
        "mock_world [(LAST_UPDATE, JNumber 1699999000000)]" 1699999000000]
  by (simp add: mock_env_def mock_world_def LAST_UPDATE_def COUNTRIES_DATA_def
      CACHE_DURATION_def)


subsection \<open>Concrete runs\<close>







subsection \<open>Writes of the freshness marker\<close>










subsection \<open>Exceptions in the operations\<close>




end
